theory Spec2Isabelle
  imports Complex_Main "HOL-Library.Multiset"
begin

section \<open>Warehouse temperature monitor: data model\<close>

text \<open>
  The embedding follows \<^verbatim>\<open>warehouse_monitor.py\<close> (class
  \<^verbatim>\<open>WarehouseTemperatureMonitor\<close>) and the alert query of \<^verbatim>\<open>app.py\<close>.

  Python floats are modelled as \<^typ>\<open>real\<close>: every constant of the program (thresholds,
  range bounds) is an integer, comparisons of finite floats agree with comparisons of the
  reals they denote, and \<^verbatim>\<open>round(x, 1)\<close> is modelled as rounding to the nearest tenth,
  ties to even. Timestamps are seconds on a clock, as a \<^typ>\<open>nat\<close>.

  Everything the object acts on is part of the state that is passed along: the two SQLite
  tables, the log, the pseudo random generator (the stream of the values that
  \<^verbatim>\<open>random.random()\<close> is going to return), the storage faults (what goes wrong, if
  anything, in each coming database write), the clock and the number of live monitoring
  threads.
\<close>

datatype error = KeyError string | StorageError

text \<open>Where a database write fails, when it does: \<^verbatim>\<open>sqlite3.connect\<close> comes before the
  parameters of the statement are evaluated, \<^verbatim>\<open>execute\<close> and \<^verbatim>\<open>commit\<close> after.\<close>

datatype io_fault = Fails_at_connect | Fails_at_write

datatype log_entry =
    Info string
  | Warning string string real real

record reading_cache =
  lr_temperature :: real
  lr_timestamp :: nat

record sensor =
  location :: string
  current_temp :: real
  last_reading :: "reading_cache option"
  is_active :: bool

record reading_row =
  r_sensor_id :: string
  r_temperature :: real
  r_timestamp :: nat
  r_location :: string

record alert_row =
  a_sensor_id :: string
  a_alert_type :: string
  a_temperature :: real
  a_timestamp :: nat
  a_resolved :: bool

record monitor =
  sensors :: "(string \<times> sensor) list"
  is_running :: bool
  alert_threshold_high :: real
  alert_threshold_low :: real
  temperature_readings :: "reading_row list"
  alerts :: "alert_row list"
  logged :: "log_entry list"
  rand :: "nat \<Rightarrow> real"
  faults :: "nat \<Rightarrow> io_fault option"
  clock :: nat
  threads :: nat

text \<open>A call either returns or raises; the object keeps every mutation made before the raise.\<close>

datatype outcome = Done monitor | Raised error monitor

fun state_of :: "outcome \<Rightarrow> monitor" where
  "state_of (Done m) = m"
| "state_of (Raised e m) = m"

fun bind :: "outcome \<Rightarrow> (monitor \<Rightarrow> outcome) \<Rightarrow> outcome" where
  "bind (Done m) f = f m"
| "bind (Raised e m) f = Raised e m"

section \<open>The environment\<close>

definition logger_info :: "string \<Rightarrow> monitor \<Rightarrow> monitor" where
  "logger_info msg m = m\<lparr>logged := logged m @ [Info msg]\<rparr>"

definition logger_warning :: "log_entry \<Rightarrow> monitor \<Rightarrow> monitor" where
  "logger_warning e m = m\<lparr>logged := logged m @ [e]\<rparr>"

text \<open>\<^verbatim>\<open>random.random()\<close> takes the next value of the stream.\<close>

definition random_random :: "monitor \<Rightarrow> real \<times> monitor" where
  "random_random m = (rand m 0, m\<lparr>rand := (\<lambda>n. rand m (Suc n))\<rparr>)"

text \<open>\<^verbatim>\<open>random.uniform(a, b)\<close> is \<^verbatim>\<open>a + (b - a) * self.random()\<close>.\<close>

definition uniform :: "real \<Rightarrow> real \<Rightarrow> real \<Rightarrow> real" where
  "uniform a b u = a + (b - a) * u"

definition random_uniform :: "real \<Rightarrow> real \<Rightarrow> monitor \<Rightarrow> real \<times> monitor" where
  "random_uniform a b m = (case random_random m of (u, m') \<Rightarrow> (uniform a b u, m'))"

text \<open>The generator returns values in \<open>[0, 1)\<close>.\<close>

definition valid_rand :: "monitor \<Rightarrow> bool" where
  "valid_rand m = (\<forall>n. 0 \<le> rand m n \<and> rand m n < 1)"

text \<open>\<^verbatim>\<open>round(x, 1)\<close>: the nearest multiple of one tenth, a tie going to the even one.\<close>

definition py_round1 :: "real \<Rightarrow> real" where
  "py_round1 x =
     (let y = x * 10; f = \<lfloor>y\<rfloor>; d = y - of_int f
      in of_int (if d < 1 / 2 then f else if 1 / 2 < d then f + 1
                 else if even f then f else f + 1) / 10)"

text \<open>Each database write takes the next entry of the fault stream.\<close>

definition next_fault :: "monitor \<Rightarrow> io_fault option \<times> monitor" where
  "next_fault m = (faults m 0, m\<lparr>faults := (\<lambda>n. faults m (Suc n))\<rparr>)"

section \<open>The monitor\<close>

definition setup_logging :: "monitor \<Rightarrow> monitor" where
  "setup_logging m =
     logger_info ''Logging system initialized - warehouse_monitor.log created'' m"

text \<open>The tables are created if they do not exist, so the rows of an earlier run stay. Any
  exception is caught and printed.\<close>

definition setup_database :: "monitor \<Rightarrow> monitor" where
  "setup_database m =
     (case next_fault m of
        (None, m') \<Rightarrow>
          logger_info ''Database warehouse_temperature.db created successfully with tables'' m'
      | (Some _, m') \<Rightarrow> m')"

definition default_sensors :: "(string \<times> string) list" where
  "default_sensors =
     [(''sensor_001'', ''Cold Storage Area''),
      (''sensor_002'', ''Loading Dock''),
      (''sensor_003'', ''Main Storage Area''),
      (''sensor_004'', ''Office Area''),
      (''sensor_005'', ''Shipping Department'')]"

text \<open>Assignment to a key of a dict: an existing key keeps its place, a new key goes last.\<close>

fun dict_set :: "('k \<times> 'v) list \<Rightarrow> 'k \<Rightarrow> 'v \<Rightarrow> ('k \<times> 'v) list" where
  "dict_set [] k v = [(k, v)]"
| "dict_set ((k', v') # kvs) k v =
     (if k' = k then (k, v) # kvs else (k', v') # dict_set kvs k v)"

fun add_sensors :: "(string \<times> string) list \<Rightarrow> monitor \<Rightarrow> monitor" where
  "add_sensors [] m = m"
| "add_sensors ((sensor_id, loc) # rest) m =
     (case random_uniform 15 25 m of
        (t, m') \<Rightarrow>
          add_sensors rest
            (m'\<lparr>sensors := dict_set (sensors m') sensor_id
                  \<lparr>location = loc, current_temp = t, last_reading = None,
                   is_active = True\<rparr>\<rparr>))"

definition setup_default_sensors :: "monitor \<Rightarrow> monitor" where
  "setup_default_sensors m =
     logger_info ''5 sensors added for simulation'' (add_sensors default_sensors m)"

text \<open>\<^verbatim>\<open>__init__\<close>: the object's own fields are set, the environment is the one given.\<close>

definition init :: "monitor \<Rightarrow> monitor" where
  "init w =
     setup_default_sensors (setup_database (setup_logging
       (w\<lparr>sensors := [], is_running := False,
          alert_threshold_high := 25, alert_threshold_low := 2\<rparr>)))"

definition base_temps :: "(string \<times> real \<times> real) list" where
  "base_temps =
     [(''sensor_001'', (1, 10)),
      (''sensor_002'', (15, 30)),
      (''sensor_003'', (18, 28)),
      (''sensor_004'', (20, 24)),
      (''sensor_005'', (16, 26))]"

text \<open>\<^verbatim>\<open>base_temps.get(sensor_id, (15.0, 25.0))\<close>.\<close>

definition base_range :: "string \<Rightarrow> real \<times> real" where
  "base_range sensor_id =
     (case map_of base_temps sensor_id of Some r \<Rightarrow> r | None \<Rightarrow> (15, 25))"

definition generate_random_temperature :: "string \<Rightarrow> monitor \<Rightarrow> real \<times> monitor" where
  "generate_random_temperature sensor_id m =
     (case base_range sensor_id of
        (base_min, base_max) \<Rightarrow>
          (case random_uniform base_min base_max m of
             (temperature, m1) \<Rightarrow>
               (case random_random m1 of
                  (r1, m2) \<Rightarrow>
                    if r1 < 3 / 10 then
                      (case random_random m2 of
                         (r2, m3) \<Rightarrow>
                           if r2 < 1 / 2 then
                             (case random_uniform 26 35 m3 of
                                (t, m4) \<Rightarrow> (py_round1 t, m4))
                           else
                             (case random_uniform (- 5) 1 m3 of
                                (t, m4) \<Rightarrow> (py_round1 t, m4)))
                    else (py_round1 temperature, m2))))"

text \<open>\<^verbatim>\<open>self.sensors[sensor_id]\<close> raises \<^verbatim>\<open>KeyError\<close> for an id that is not registered.
  In \<^verbatim>\<open>store_reading\<close> the connection is opened first, the parameters (with the sensor's
  location) are evaluated next, and only \<^verbatim>\<open>commit\<close> makes the row visible. The
  timestamp is the column's default, the current time.\<close>

definition store_reading :: "string \<Rightarrow> real \<Rightarrow> monitor \<Rightarrow> outcome" where
  "store_reading sensor_id temperature m =
     (case next_fault m of
        (Some Fails_at_connect, m') \<Rightarrow> Raised StorageError m'
      | (fault, m') \<Rightarrow>
          (case map_of (sensors m') sensor_id of
             None \<Rightarrow> Raised (KeyError sensor_id) m'
           | Some s \<Rightarrow>
               (case fault of
                  Some _ \<Rightarrow> Raised StorageError m'
                | None \<Rightarrow>
                    Done (m'\<lparr>temperature_readings := temperature_readings m' @
                             [\<lparr>r_sensor_id = sensor_id, r_temperature = temperature,
                               r_timestamp = clock m', r_location = location s\<rparr>]\<rparr>))))"

text \<open>The \<^verbatim>\<open>resolved\<close> column is not written: it takes its default, false.\<close>

definition store_alert :: "string \<Rightarrow> string \<Rightarrow> real \<Rightarrow> monitor \<Rightarrow> outcome" where
  "store_alert sensor_id alert_type temperature m =
     (case next_fault m of
        (Some _, m') \<Rightarrow> Raised StorageError m'
      | (None, m') \<Rightarrow>
          Done (m'\<lparr>alerts := alerts m' @
                   [\<lparr>a_sensor_id = sensor_id, a_alert_type = alert_type,
                     a_temperature = temperature, a_timestamp = clock m',
                     a_resolved = False\<rparr>]\<rparr>))"

text \<open>The message is built first (it reads the sensor's location), the alert is stored
  next, the warning is logged last. The message is kept as its parts: the label, the
  location, the temperature and the threshold.\<close>

definition check_alerts :: "string \<Rightarrow> real \<Rightarrow> monitor \<Rightarrow> outcome" where
  "check_alerts sensor_id temperature m =
     (if temperature > alert_threshold_high m then
        (case map_of (sensors m) sensor_id of
           None \<Rightarrow> Raised (KeyError sensor_id) m
         | Some s \<Rightarrow>
             bind (store_alert sensor_id ''HIGH_TEMPERATURE'' temperature m)
               (\<lambda>m'. Done (logger_warning
                  (Warning ''HIGH TEMPERATURE'' (location s) temperature
                     (alert_threshold_high m')) m')))
      else if temperature < alert_threshold_low m then
        (case map_of (sensors m) sensor_id of
           None \<Rightarrow> Raised (KeyError sensor_id) m
         | Some s \<Rightarrow>
             bind (store_alert sensor_id ''LOW_TEMPERATURE'' temperature m)
               (\<lambda>m'. Done (logger_warning
                  (Warning ''LOW TEMPERATURE'' (location s) temperature
                     (alert_threshold_low m')) m')))
      else Done m)"

text \<open>The rows of the alerts table that a call has added.\<close>

definition new_alerts :: "monitor \<Rightarrow> monitor \<Rightarrow> alert_row list" where
  "new_alerts m m' = drop (length (alerts m)) (alerts m')"

text \<open>What a call raised, if it did.\<close>

fun error_of :: "outcome \<Rightarrow> error option" where
  "error_of (Done m) = None"
| "error_of (Raised e m) = Some e"

text \<open>The body of the \<^verbatim>\<open>for\<close> loop of \<^verbatim>\<open>monitoring_loop\<close>, for one sensor: generate,
  store the reading, check for alerts, update the sensor's last reading. No exception is
  caught.\<close>

definition process_sensor :: "string \<Rightarrow> monitor \<Rightarrow> outcome" where
  "process_sensor sensor_id m =
     (case generate_random_temperature sensor_id m of
        (temperature, m1) \<Rightarrow>
          bind (store_reading sensor_id temperature m1) (\<lambda>m2.
          bind (check_alerts sensor_id temperature m2) (\<lambda>m3.
            (case map_of (sensors m3) sensor_id of
               None \<Rightarrow> Raised (KeyError sensor_id) m3
             | Some s \<Rightarrow>
                 Done (m3\<lparr>sensors := dict_set (sensors m3) sensor_id
                   (s\<lparr>last_reading :=
                        Some \<lparr>lr_temperature = temperature,
                              lr_timestamp = clock m3\<rparr>\<rparr>)\<rparr>)))))"

fun for_sensors :: "string list \<Rightarrow> monitor \<Rightarrow> outcome" where
  "for_sensors [] m = Done m"
| "for_sensors (sensor_id # rest) m = bind (process_sensor sensor_id m) (for_sensors rest)"

definition time_sleep :: "nat \<Rightarrow> monitor \<Rightarrow> monitor" where
  "time_sleep secs m = m\<lparr>clock := clock m + secs\<rparr>"

text \<open>One pass of the \<^verbatim>\<open>while\<close> loop's body: every key of \<^verbatim>\<open>self.sensors\<close> in order,
  then three seconds of sleep.\<close>

definition tick :: "monitor \<Rightarrow> outcome" where
  "tick m = bind (for_sensors (map fst (sensors m)) m) (\<lambda>m'. Done (time_sleep 3 m'))"

text \<open>\<^verbatim>\<open>while self.is_running\<close>, run by one thread with nothing else touching the flag. The
  loop has no bound of its own, so the model counts the passes it may make: \<open>None\<close> is a
  loop still running when they are used up.\<close>

fun while_running :: "nat \<Rightarrow> monitor \<Rightarrow> outcome option" where
  "while_running 0 m = (if is_running m then None else Some (Done m))"
| "while_running (Suc n) m =
     (if is_running m then
        (case tick m of
           Done m' \<Rightarrow> while_running n m'
         | Raised e m' \<Rightarrow> Some (Raised e m'))
      else Some (Done m))"

definition monitoring_loop :: "nat \<Rightarrow> monitor \<Rightarrow> outcome option" where
  "monitoring_loop fuel m =
     while_running fuel
       (logger_info
          ''Starting temperature monitoring system - generating random data every 3 seconds''
          m)"

text \<open>\<^verbatim>\<open>start_monitoring\<close> sets the flag, creates a thread that runs \<^verbatim>\<open>monitoring_loop\<close>
  and starts it. It reads neither the flag nor an earlier thread.\<close>

definition start_monitoring :: "monitor \<Rightarrow> monitor" where
  "start_monitoring m =
     logger_info ''Monitoring thread started''
       (m\<lparr>is_running := True, threads := threads m + 1\<rparr>)"

definition stop_monitoring :: "monitor \<Rightarrow> monitor" where
  "stop_monitoring m = logger_info ''Monitoring system stopped'' (m\<lparr>is_running := False\<rparr>)"

text \<open>One live monitoring thread arriving at the head of its \<^verbatim>\<open>while\<close> loop: it makes a
  pass if the flag is set, and ends if the flag is clear or the pass raises.\<close>

definition worker_step :: "monitor \<Rightarrow> monitor" where
  "worker_step m =
     (if threads m = 0 then m
      else if is_running m then
        (case tick m of
           Done m' \<Rightarrow> m'
         | Raised e m' \<Rightarrow> m'\<lparr>threads := threads m' - 1\<rparr>)
      else m\<lparr>threads := threads m - 1\<rparr>)"

section \<open>The alert query of the dashboard\<close>

text \<open>The rows that \<^verbatim>\<open>get_active_alerts\<close> returns carry four columns.\<close>

record active_alert =
  j_sensor_id :: string
  j_alert_type :: string
  j_temperature :: real
  j_timestamp :: nat

definition alert_json :: "alert_row \<Rightarrow> active_alert" where
  "alert_json r =
     \<lparr>j_sensor_id = a_sensor_id r, j_alert_type = a_alert_type r,
      j_temperature = a_temperature r, j_timestamp = a_timestamp r\<rparr>"

text \<open>\<^verbatim>\<open>SELECT ... FROM alerts WHERE resolved = FALSE ORDER BY timestamp DESC\<close>. SQL leaves
  the order of rows with equal timestamps open; here they keep the table's order.\<close>

definition select_active :: "alert_row list \<Rightarrow> alert_row list" where
  "select_active tbl =
     sort_key (\<lambda>r. - int (a_timestamp r)) (filter (\<lambda>r. a_resolved r = False) tbl)"

definition get_active_alerts :: "io_fault option \<Rightarrow> alert_row list \<Rightarrow> error + active_alert list" where
  "get_active_alerts fault tbl =
     (case fault of
        Some _ \<Rightarrow> Inl StorageError
      | None \<Rightarrow> Inr (map alert_json (select_active tbl)))"

section \<open>Example environments\<close>

text \<open>A process that starts on empty tables, with a generator that always returns one half
  and a database that never fails.\<close>

definition example_world :: monitor where
  "example_world =
     \<lparr>sensors = [], is_running = False, alert_threshold_high = 0, alert_threshold_low = 0,
      temperature_readings = [], alerts = [], logged = [],
      rand = (\<lambda>n. 1 / 2), faults = (\<lambda>n. None), clock = 0, threads = 0\<rparr>"

text \<open>The same, but the first write of a reading fails (the write before it is the
  constructor's creation of the tables).\<close>

definition faulty_world :: monitor where
  "faulty_world =
     example_world\<lparr>faults := (\<lambda>n. if n = 1 then Some Fails_at_write else None)\<rparr>"

text \<open>The same as the first, but the generator returns nine tenths.\<close>

definition warm_world :: monitor where
  "warm_world = example_world\<lparr>rand := (\<lambda>n. 9 / 10)\<rparr>"



text \<open>The first four writes succeed and the fifth fails, with the generator of the warm
  environment: in the first pass the readings of two sensors and one alert are written, and
  the third sensor's reading is not.\<close>

definition late_fault_world :: monitor where
  "late_fault_world =
     warm_world\<lparr>faults := (\<lambda>n. if n = 4 then Some Fails_at_write else None)\<rparr>"

text \<open>A generator that returns zero every time, so that every temperature is the extreme
  26.0, and a database whose first write of an alert fails.\<close>

definition alert_fault_world :: monitor where
  "alert_fault_world =
     example_world\<lparr>rand := (\<lambda>n. 0),
       faults := (\<lambda>n. if n = 2 then Some Fails_at_write else None)\<rparr>"

text \<open>An alerts table of three rows, the second of them resolved.\<close>

definition example_alerts :: "alert_row list" where
  "example_alerts =
     [\<lparr>a_sensor_id = ''sensor_001'', a_alert_type = ''LOW_TEMPERATURE'',
       a_temperature = 1 / 2, a_timestamp = 3, a_resolved = False\<rparr>,
      \<lparr>a_sensor_id = ''sensor_002'', a_alert_type = ''HIGH_TEMPERATURE'',
       a_temperature = 57 / 2, a_timestamp = 6, a_resolved = True\<rparr>,
      \<lparr>a_sensor_id = ''sensor_003'', a_alert_type = ''HIGH_TEMPERATURE'',
       a_temperature = 27, a_timestamp = 9, a_resolved = False\<rparr>]"

section \<open>The invariant of the alerts table\<close>

text \<open>The thresholds are the constructor's; an alert row is a violation when its temperature
  is beyond one of them and it is not resolved; a step keeps the thresholds and only adds
  violations at the end of the table.\<close>

definition thresholds_set :: "monitor \<Rightarrow> bool" where
  "thresholds_set m = (alert_threshold_high m = 25 \<and> alert_threshold_low m = 2)"

definition violation :: "alert_row \<Rightarrow> bool" where
  "violation r = ((25 < a_temperature r \<or> a_temperature r < 2) \<and> a_resolved r = False)"

definition adds_violations :: "monitor \<Rightarrow> monitor \<Rightarrow> bool" where
  "adds_violations m m' =
     (thresholds_set m' \<and> (\<exists>new. alerts m' = alerts m @ new \<and> list_all violation new))"

section \<open>The constructor\<close>

lemma add_sensors_frame:
  "is_running (add_sensors cs m) = is_running m \<and>
   alert_threshold_high (add_sensors cs m) = alert_threshold_high m \<and>
   alert_threshold_low (add_sensors cs m) = alert_threshold_low m \<and>
   temperature_readings (add_sensors cs m) = temperature_readings m \<and>
   alerts (add_sensors cs m) = alerts m \<and>
   logged (add_sensors cs m) = logged m \<and>
   faults (add_sensors cs m) = faults m \<and>
   clock (add_sensors cs m) = clock m \<and>
   threads (add_sensors cs m) = threads m \<and>
   rand (add_sensors cs m) = (\<lambda>n. rand m (n + length cs))"
  by (induction cs m rule: add_sensors.induct)
     (auto simp: random_uniform_def random_random_def)

lemma init_sensors:
  "sensors (init w) =
     [(''sensor_001'', \<lparr>location = ''Cold Storage Area'', current_temp = uniform 15 25 (rand w 0), last_reading = None, is_active = True\<rparr>),
      (''sensor_002'', \<lparr>location = ''Loading Dock'', current_temp = uniform 15 25 (rand w 1), last_reading = None, is_active = True\<rparr>),
      (''sensor_003'', \<lparr>location = ''Main Storage Area'', current_temp = uniform 15 25 (rand w 2), last_reading = None, is_active = True\<rparr>),
      (''sensor_004'', \<lparr>location = ''Office Area'', current_temp = uniform 15 25 (rand w 3), last_reading = None, is_active = True\<rparr>),
      (''sensor_005'', \<lparr>location = ''Shipping Department'', current_temp = uniform 15 25 (rand w 4), last_reading = None, is_active = True\<rparr>)]"
  by (simp add: init_def setup_default_sensors_def setup_database_def setup_logging_def
      logger_info_def next_fault_def default_sensors_def random_uniform_def random_random_def
      eval_nat_numeral split: option.splits)

lemma length_default_sensors: "length default_sensors = 5"
  by (simp add: default_sensors_def)

lemma init_frame:
  "is_running (init w) = False \<and>
   alert_threshold_high (init w) = 25 \<and>
   alert_threshold_low (init w) = 2 \<and>
   temperature_readings (init w) = temperature_readings w \<and>
   alerts (init w) = alerts w \<and>
   faults (init w) = (\<lambda>n. faults w (Suc n)) \<and>
   clock (init w) = clock w \<and>
   threads (init w) = threads w \<and>
   rand (init w) = (\<lambda>n. rand w (n + 5))"
  by (simp add: init_def setup_default_sensors_def setup_database_def setup_logging_def
      logger_info_def next_fault_def add_sensors_frame length_default_sensors
      split: option.splits)

lemma valid_rand_init: "valid_rand w \<Longrightarrow> valid_rand (init w)"
  by (simp add: valid_rand_def init_frame)


lemma valid_rand_warm: "valid_rand warm_world"
  by (simp add: valid_rand_def warm_world_def example_world_def)



section \<open>Alert evaluation\<close>

lemma store_alert_ok:
  "faults m 0 = None \<Longrightarrow>
   store_alert sid k t m =
     Done (m\<lparr>faults := (\<lambda>n. faults m (Suc n)),
            alerts := alerts m @
              [\<lparr>a_sensor_id = sid, a_alert_type = k, a_temperature = t,
                a_timestamp = clock m, a_resolved = False\<rparr>]\<rparr>)"
  by (simp add: store_alert_def next_fault_def)

text \<open>
  C1. For a registered sensor and a write that succeeds, with the thresholds 25.0 and 2.0
  of the constructor: \<^verbatim>\<open>check_alerts\<close> returns, and it stores exactly one alert, of type
  HIGH_TEMPERATURE, iff \<open>t > 25\<close>; exactly one, of type LOW_TEMPERATURE, iff \<open>t < 2\<close>; and
  none iff neither. What it stores is always one of these three, which exclude each other.
\<close>

theorem check_alerts_classifies:
  assumes "alert_threshold_high m = 25" and "alert_threshold_low m = 2"
    and "map_of (sensors m) sid = Some s" and "faults m 0 = None"
  shows "(\<exists>m'. check_alerts sid t m = Done m') \<and>
    (map a_alert_type (new_alerts m (state_of (check_alerts sid t m))) = [''HIGH_TEMPERATURE'']
       \<longleftrightarrow> t > 25) \<and>
    (map a_alert_type (new_alerts m (state_of (check_alerts sid t m))) = [''LOW_TEMPERATURE'']
       \<longleftrightarrow> t < 2) \<and>
    (map a_alert_type (new_alerts m (state_of (check_alerts sid t m))) = []
       \<longleftrightarrow> \<not> t > 25 \<and> \<not> t < 2) \<and>
    map a_alert_type (new_alerts m (state_of (check_alerts sid t m))) \<in>
      {[''HIGH_TEMPERATURE''], [''LOW_TEMPERATURE''], []}"
  using assms
  by (auto simp: check_alerts_def store_alert_ok new_alerts_def logger_warning_def)

theorem check_alerts_classifies_witness:
  "alert_threshold_high (init example_world) = 25 \<and>
   alert_threshold_low (init example_world) = 2 \<and>
   map_of (sensors (init example_world)) ''sensor_002'' \<noteq> None \<and>
   faults (init example_world) 0 = None \<and>
   (\<exists>m'. check_alerts ''sensor_002'' 30 (init example_world) = Done m') \<and>
   map a_alert_type (new_alerts (init example_world)
     (state_of (check_alerts ''sensor_002'' 30 (init example_world)))) = [''HIGH_TEMPERATURE''] \<and>
   map a_alert_type (new_alerts (init example_world)
     (state_of (check_alerts ''sensor_002'' 1 (init example_world)))) = [''LOW_TEMPERATURE''] \<and>
   map a_alert_type (new_alerts (init example_world)
     (state_of (check_alerts ''sensor_002'' 25 (init example_world)))) = []"
  using check_alerts_classifies [of "init example_world" "''sensor_002''" _ 30]
    check_alerts_classifies [of "init example_world" "''sensor_002''" _ 1]
    check_alerts_classifies [of "init example_world" "''sensor_002''" _ 25]
  by (simp add: init_frame init_sensors example_world_def)

section \<open>The generator\<close>






lemma generate_eq:
  "generate_random_temperature sid m =
     (if rand m 1 < 3 / 10 then
        (if rand m 2 < 1 / 2 then py_round1 (uniform 26 35 (rand m 3))
         else py_round1 (uniform (- 5) 1 (rand m 3)),
         m\<lparr>rand := (\<lambda>n. rand m (n + 4))\<rparr>)
      else
        (py_round1 (uniform (fst (base_range sid)) (snd (base_range sid)) (rand m 0)),
         m\<lparr>rand := (\<lambda>n. rand m (n + 2))\<rparr>))"
  by (simp add: generate_random_temperature_def random_uniform_def random_random_def
      eval_nat_numeral split: prod.splits)








section \<open>A normal draw that raises an alert\<close>

lemma store_reading_ok:
  "faults m 0 = None \<Longrightarrow> map_of (sensors m) sid = Some s \<Longrightarrow>
   store_reading sid t m =
     Done (m\<lparr>faults := (\<lambda>n. faults m (Suc n)),
            temperature_readings := temperature_readings m @
              [\<lparr>r_sensor_id = sid, r_temperature = t,
                r_timestamp = clock m, r_location = location s\<rparr>]\<rparr>)"
  by (simp add: store_reading_def next_fault_def)

lemma warm_draw:
  "generate_random_temperature ''sensor_002'' (init warm_world) =
     (57 / 2, (init warm_world)\<lparr>rand := (\<lambda>n. 9 / 10)\<rparr>)"
  by (simp add: generate_eq init_frame warm_world_def example_world_def base_range_def
      base_temps_def uniform_def py_round1_def Let_def)

lemma warm_alert:
  "map (\<lambda>r. (a_sensor_id r, a_alert_type r, a_temperature r))
     (new_alerts (init warm_world) (state_of (process_sensor ''sensor_002'' (init warm_world)))) =
   [(''sensor_002'', ''HIGH_TEMPERATURE'', 57 / 2)]"
  apply (simp add: process_sensor_def warm_draw)
  apply (subst store_reading_ok)
    apply (simp add: init_frame warm_world_def example_world_def)
   apply (simp add: init_sensors)
  apply (simp add: check_alerts_def init_frame init_sensors store_alert_ok warm_world_def example_world_def
      logger_warning_def new_alerts_def)
  done

text \<open>
  C10. There is a run in which the Loading Dock sensor (normal range \<open>[15, 30]\<close>) gets a
  temperature that is not an extreme draw, lies in its normal range and is above 25, and
  for which processing the sensor stores a HIGH_TEMPERATURE alert with that temperature.
\<close>

theorem normal_draw_raises_high_alert:
  "\<exists>m. valid_rand m \<and> \<not> rand m 1 < 3 / 10 \<and>
     25 < fst (generate_random_temperature ''sensor_002'' m) \<and>
     fst (generate_random_temperature ''sensor_002'' m) \<le> snd (base_range ''sensor_002'') \<and>
     map (\<lambda>r. (a_sensor_id r, a_alert_type r, a_temperature r))
       (new_alerts m (state_of (process_sensor ''sensor_002'' m))) =
     [(''sensor_002'', ''HIGH_TEMPERATURE'',
       fst (generate_random_temperature ''sensor_002'' m))]"
proof (rule exI [of _ "init warm_world"], intro conjI)
  show "valid_rand (init warm_world)"
    by (rule valid_rand_init [OF valid_rand_warm])
  show "\<not> rand (init warm_world) 1 < 3 / 10"
    by (simp add: init_frame warm_world_def)
  show "25 < fst (generate_random_temperature ''sensor_002'' (init warm_world))"
    by (simp add: warm_draw)
  show "fst (generate_random_temperature ''sensor_002'' (init warm_world))
      \<le> snd (base_range ''sensor_002'')"
    by (simp add: warm_draw base_range_def base_temps_def)
  show "map (\<lambda>r. (a_sensor_id r, a_alert_type r, a_temperature r))
       (new_alerts (init warm_world)
          (state_of (process_sensor ''sensor_002'' (init warm_world)))) =
     [(''sensor_002'', ''HIGH_TEMPERATURE'',
       fst (generate_random_temperature ''sensor_002'' (init warm_world)))]"
    by (simp add: warm_alert warm_draw)
qed

section \<open>Every stored alert is a violation\<close>

lemma adds_violations_refl: "thresholds_set m \<Longrightarrow> adds_violations m m"
  by (simp add: adds_violations_def)

lemma adds_violations_trans:
  "adds_violations a b \<Longrightarrow> adds_violations b c \<Longrightarrow> adds_violations a c"
  by (auto simp: adds_violations_def)

lemma adds_violations_same:
  "thresholds_set m \<Longrightarrow> alerts m' = alerts m \<Longrightarrow>
   alert_threshold_high m' = alert_threshold_high m \<Longrightarrow>
   alert_threshold_low m' = alert_threshold_low m \<Longrightarrow> adds_violations m m'"
  by (simp add: adds_violations_def thresholds_set_def)

lemma adds_violations_thresholds: "adds_violations m m' \<Longrightarrow> thresholds_set m'"
  by (simp add: adds_violations_def)

lemma adds_violations_bind:
  assumes "adds_violations m (state_of x)"
    and "\<And>m1. thresholds_set m1 \<Longrightarrow> adds_violations m1 (state_of (f m1))"
  shows "adds_violations m (state_of (bind x f))"
proof (cases x)
  case (Done m1)
  with assms(1) have a: "adds_violations m m1" by simp
  then have "adds_violations m1 (state_of (f m1))"
    by (intro assms(2) adds_violations_thresholds)
  with a Done show ?thesis by (auto intro: adds_violations_trans)
next
  case (Raised e m1)
  with assms(1) show ?thesis by simp
qed

lemma store_alert_adds:
  assumes "thresholds_set m" and "25 < t \<or> t < 2"
  shows "adds_violations m (state_of (store_alert sid k t m))"
  using assms
  by (cases "faults m 0")
     (auto simp: store_alert_def next_fault_def adds_violations_def thresholds_set_def
        violation_def)

lemma check_alerts_adds:
  assumes "thresholds_set m"
  shows "adds_violations m (state_of (check_alerts sid t m))"
proof -
  have w: "adds_violations m1 (state_of (Done (logger_warning e m1)))"
    if "thresholds_set m1" for m1 e
    using that by (intro adds_violations_same) (simp_all add: logger_warning_def)
  have hi: "adds_violations m (state_of (bind (store_alert sid k t m)
      (\<lambda>m'. Done (logger_warning (e m') m'))))" if "25 < t \<or> t < 2" for k e
    by (rule adds_violations_bind [OF store_alert_adds [OF assms that]]) (rule w)
  show ?thesis
    using assms hi
    by (auto simp: check_alerts_def thresholds_set_def adds_violations_refl
        split: option.splits)
qed

lemma generate_frame:
  "snd (generate_random_temperature sid m) =
     m\<lparr>rand := rand (snd (generate_random_temperature sid m))\<rparr>"
  by (simp add: generate_eq)

lemma store_reading_adds:
  assumes "thresholds_set m"
  shows "adds_violations m (state_of (store_reading sid t m))"
  using assms
  by (intro adds_violations_same)
     (auto simp: store_reading_def next_fault_def split: option.splits io_fault.splits)

lemma process_sensor_adds:
  assumes "thresholds_set m"
  shows "adds_violations m (state_of (process_sensor sid m))"
proof -
  obtain t m1 where g: "generate_random_temperature sid m = (t, m1)"
    by (cases "generate_random_temperature sid m")
  have m1: "m1 = m\<lparr>rand := rand m1\<rparr>"
    using generate_frame [of sid m] g by simp
  have "alerts m1 = alerts m" and "alert_threshold_high m1 = alert_threshold_high m"
    and "alert_threshold_low m1 = alert_threshold_low m"
    by (subst m1, simp)+
  with assms have a1: "adds_violations m m1"
    by (intro adds_violations_same)
  then have t1: "thresholds_set m1" by (rule adds_violations_thresholds)
  have upd: "adds_violations m3 (state_of
      (case map_of (sensors m3) sid of
         None \<Rightarrow> Raised (KeyError sid) m3
       | Some s \<Rightarrow> Done (m3\<lparr>sensors := dict_set (sensors m3) sid
           (s\<lparr>last_reading := Some \<lparr>lr_temperature = t, lr_timestamp = clock m3\<rparr>\<rparr>)\<rparr>)))"
    if "thresholds_set m3" for m3
    using that by (intro adds_violations_same) (simp_all split: option.splits)
  have "adds_violations m1 (state_of
      (bind (store_reading sid t m1) (\<lambda>m2. bind (check_alerts sid t m2) (\<lambda>m3.
        (case map_of (sensors m3) sid of
           None \<Rightarrow> Raised (KeyError sid) m3
         | Some s \<Rightarrow> Done (m3\<lparr>sensors := dict_set (sensors m3) sid
             (s\<lparr>last_reading := Some \<lparr>lr_temperature = t, lr_timestamp = clock m3\<rparr>\<rparr>)\<rparr>))))))"
    by (intro adds_violations_bind store_reading_adds check_alerts_adds upd t1)
  with a1 show ?thesis
    by (simp add: process_sensor_def g adds_violations_trans)
qed

lemma for_sensors_adds:
  "thresholds_set m \<Longrightarrow> adds_violations m (state_of (for_sensors sids m))"
proof (induction sids arbitrary: m)
  case Nil
  then show ?case by (simp add: adds_violations_refl)
next
  case (Cons sid sids)
  show ?case
    by (simp, rule adds_violations_bind [OF process_sensor_adds [OF Cons.prems]])
       (rule Cons.IH)
qed

lemma tick_adds:
  assumes "thresholds_set m"
  shows "adds_violations m (state_of (tick m))"
  unfolding tick_def
proof (rule adds_violations_bind [OF for_sensors_adds [OF assms]])
  fix m1 assume "thresholds_set m1"
  then show "adds_violations m1 (state_of (Done (time_sleep 3 m1)))"
    by (intro adds_violations_same) (simp_all add: time_sleep_def)
qed

lemma while_running_adds:
  "thresholds_set m \<Longrightarrow> while_running n m = Some res \<Longrightarrow> adds_violations m (state_of res)"
proof (induction n arbitrary: m)
  case 0
  then show ?case by (auto simp: adds_violations_refl split: if_splits)
next
  case (Suc n)
  show ?case
  proof (cases "is_running m")
    case False
    with Suc.prems show ?thesis by (auto simp: adds_violations_refl)
  next
    case True
    have t: "adds_violations m (state_of (tick m))"
      using Suc.prems(1) by (rule tick_adds)
    show ?thesis
    proof (cases "tick m")
      case (Done m')
      with t have a: "adds_violations m m'" by simp
      from Done True Suc.prems(2) have "while_running n m' = Some res" by simp
      with a Suc.IH [of m'] show ?thesis
        by (blast intro: adds_violations_trans adds_violations_thresholds)
    next
      case (Raised e m')
      with True Suc.prems(2) t show ?thesis by auto
    qed
  qed
qed

lemma adds_violations_new:
  "adds_violations m m' \<Longrightarrow>
   alerts m' = alerts m @ new_alerts m m' \<and>
   (\<forall>r \<in> set (new_alerts m m'). (25 < a_temperature r \<or> a_temperature r < 2) \<and> a_resolved r = False)"
  by (auto simp: adds_violations_def new_alerts_def list_all_iff violation_def)

lemmas run_defs = process_sensor_def generate_eq store_reading_def store_alert_def
  check_alerts_def next_fault_def logger_warning_def logger_info_def time_sleep_def
  tick_def base_range_def base_temps_def uniform_def py_round1_def Let_def

lemmas init_defs = init_def setup_default_sensors_def setup_database_def setup_logging_def
  logger_info_def next_fault_def default_sensors_def random_uniform_def random_random_def
  uniform_def start_monitoring_def

lemma late_run:
  "map_option (new_alerts (start_monitoring (init late_fault_world)) \<circ> state_of)
     (monitoring_loop 3 (start_monitoring (init late_fault_world))) =
     Some [\<lparr>a_sensor_id = ''sensor_002'', a_alert_type = ''HIGH_TEMPERATURE'',
            a_temperature = 57 / 2, a_timestamp = 0, a_resolved = False\<rparr>]"
  by (simp add: monitoring_loop_def init_defs late_fault_world_def warm_world_def
      example_world_def run_defs eval_nat_numeral new_alerts_def)

lemma late_check:
  "new_alerts (start_monitoring (init late_fault_world))
     (state_of (check_alerts ''sensor_002'' 30 (start_monitoring (init late_fault_world)))) =
     [\<lparr>a_sensor_id = ''sensor_002'', a_alert_type = ''HIGH_TEMPERATURE'',
       a_temperature = 30, a_timestamp = 0, a_resolved = False\<rparr>]"
  by (simp add: init_defs late_fault_world_def warm_world_def example_world_def run_defs
      new_alerts_def)

text \<open>
  C5. With the thresholds 25.0 and 2.0 of the constructor: \<^verbatim>\<open>check_alerts\<close> only appends
  to the alerts table, and every row it appends carries the temperature it was called
  with, which is above 25 or below 2, and is not resolved. A pass of the loop, finished or
  cut short by an exception, keeps the thresholds and only appends rows with a temperature
  above 25 or below 2 that are not resolved, so this holds pass after pass; and it holds
  for every row that a run of the monitoring loop has appended when it ends, however it
  ends.
\<close>

theorem alerts_created_in_violation:
  assumes "alert_threshold_high m = 25" and "alert_threshold_low m = 2"
  shows "alerts (state_of (check_alerts sid t m)) =
      alerts m @ new_alerts m (state_of (check_alerts sid t m)) \<and>
    (\<forall>r \<in> set (new_alerts m (state_of (check_alerts sid t m))).
       a_temperature r = t \<and> (25 < t \<or> t < 2) \<and> a_resolved r = False) \<and>
    alert_threshold_high (state_of (tick m)) = 25 \<and>
    alert_threshold_low (state_of (tick m)) = 2 \<and>
    alerts (state_of (tick m)) = alerts m @ new_alerts m (state_of (tick m)) \<and>
    (\<forall>r \<in> set (new_alerts m (state_of (tick m))).
       (25 < a_temperature r \<or> a_temperature r < 2) \<and> a_resolved r = False) \<and>
    (\<forall>n res. monitoring_loop n m = Some res \<longrightarrow>
       alerts (state_of res) = alerts m @ new_alerts m (state_of res) \<and>
       (\<forall>r \<in> set (new_alerts m (state_of res)).
          (25 < a_temperature r \<or> a_temperature r < 2) \<and> a_resolved r = False))"
proof -
  have ts: "thresholds_set m"
    using assms by (simp add: thresholds_set_def)
  have c: "alerts (state_of (check_alerts sid t m)) =
      alerts m @ new_alerts m (state_of (check_alerts sid t m))"
    using adds_violations_new [OF check_alerts_adds [OF ts]] by simp
  have v: "\<forall>r \<in> set (new_alerts m (state_of (check_alerts sid t m))).
       a_temperature r = t \<and> (25 < t \<or> t < 2) \<and> a_resolved r = False"
    using assms
    by (cases "faults m 0")
       (auto simp: check_alerts_def store_alert_def next_fault_def new_alerts_def
          logger_warning_def split: option.splits)
  have l: "alerts (state_of res) = alerts m @ new_alerts m (state_of res) \<and>
       (\<forall>r \<in> set (new_alerts m (state_of res)).
          (25 < a_temperature r \<or> a_temperature r < 2) \<and> a_resolved r = False)"
    if "monitoring_loop n m = Some res" for n res
  proof -
    let ?entry = "logger_info
      ''Starting temperature monitoring system - generating random data every 3 seconds'' m"
    have "thresholds_set ?entry" using ts by (simp add: thresholds_set_def logger_info_def)
    moreover have "while_running n ?entry = Some res"
      using that by (simp add: monitoring_loop_def)
    ultimately have "adds_violations ?entry (state_of res)" by (rule while_running_adds)
    then have "adds_violations m (state_of res)"
      by (simp add: adds_violations_def logger_info_def)
    then show ?thesis by (rule adds_violations_new)
  qed
  have p: "alert_threshold_high (state_of (tick m)) = 25 \<and>
      alert_threshold_low (state_of (tick m)) = 2"
    using adds_violations_thresholds [OF tick_adds [OF ts]] by (simp add: thresholds_set_def)
  have q: "alerts (state_of (tick m)) = alerts m @ new_alerts m (state_of (tick m)) \<and>
      (\<forall>r \<in> set (new_alerts m (state_of (tick m))).
         (25 < a_temperature r \<or> a_temperature r < 2) \<and> a_resolved r = False)"
    using tick_adds [OF ts] by (rule adds_violations_new)
  from c v p q l show ?thesis by blast
qed

theorem alerts_created_in_violation_witness:
  "alert_threshold_high (start_monitoring (init late_fault_world)) = 25 \<and>
   alert_threshold_low (start_monitoring (init late_fault_world)) = 2 \<and>
   new_alerts (start_monitoring (init late_fault_world))
     (state_of (check_alerts ''sensor_002'' 30 (start_monitoring (init late_fault_world)))) =
     [\<lparr>a_sensor_id = ''sensor_002'', a_alert_type = ''HIGH_TEMPERATURE'',
       a_temperature = 30, a_timestamp = 0, a_resolved = False\<rparr>] \<and>
   map_option (new_alerts (start_monitoring (init late_fault_world)) \<circ> state_of)
     (monitoring_loop 3 (start_monitoring (init late_fault_world))) =
     Some [\<lparr>a_sensor_id = ''sensor_002'', a_alert_type = ''HIGH_TEMPERATURE'',
            a_temperature = 57 / 2, a_timestamp = 0, a_resolved = False\<rparr>]"
  using alerts_created_in_violation
    [of "start_monitoring (init late_fault_world)" "''sensor_002''" 30]
  by (simp add: late_run late_check)
     (simp add: start_monitoring_def logger_info_def init_frame)

section \<open>A write that fails\<close>

lemma for_sensors_append:
  "for_sensors (xs @ ys) m = bind (for_sensors xs m) (for_sensors ys)"
proof (induction xs arbitrary: m)
  case Nil
  show ?case by simp
next
  case (Cons x xs)
  show ?case
    by (cases "process_sensor x m") (simp_all add: Cons.IH)
qed

lemma for_sensors_abort:
  assumes "for_sensors pre m = Done m1" and "process_sensor sid m1 = Raised e m2"
  shows "for_sensors (pre @ sid # rest) m = Raised e m2"
  using assms by (simp add: for_sensors_append)

lemma tick_abort:
  assumes "map fst (sensors m) = pre @ sid # rest"
    and "for_sensors pre m = Done m1" and "process_sensor sid m1 = Raised e m2"
  shows "tick m = Raised e m2"
  using for_sensors_abort [OF assms(2,3)] assms(1) by (simp add: tick_def)

lemma while_running_abort:
  "is_running m \<Longrightarrow> tick m = Raised e m2 \<Longrightarrow> while_running (Suc n) m = Some (Raised e m2)"
  by simp

lemma process_sensor_write_fails:
  assumes "faults m 0 = Some f" and "map_of (sensors m) sid = Some s"
  shows "process_sensor sid m =
     Raised StorageError
       ((snd (generate_random_temperature sid m))\<lparr>faults := (\<lambda>n. faults m (Suc n))\<rparr>)"
proof -
  obtain t m1 where g: "generate_random_temperature sid m = (t, m1)"
    by (cases "generate_random_temperature sid m")
  have m1: "m1 = m\<lparr>rand := rand m1\<rparr>"
    using generate_frame [of sid m] g by simp
  have "faults m1 = faults m" and "sensors m1 = sensors m"
    by (subst m1, simp)+
  with assms have "store_reading sid t m1 =
      Raised StorageError (m1\<lparr>faults := (\<lambda>n. faults m (Suc n))\<rparr>)"
    by (cases f) (simp_all add: store_reading_def next_fault_def)
  then show ?thesis by (simp add: process_sensor_def g)
qed

lemma process_sensor_alert_write_fails:
  assumes "faults m 0 = None" and "faults m (Suc 0) = Some f"
    and "map_of (sensors m) sid = Some s"
    and "alert_threshold_high m < fst (generate_random_temperature sid m) \<or>
      fst (generate_random_temperature sid m) < alert_threshold_low m"
  shows "\<exists>m2. process_sensor sid m = Raised StorageError m2 \<and>
      alerts m2 = alerts m \<and> sensors m2 = sensors m \<and> clock m2 = clock m"
proof -
  obtain t m1 where g: "generate_random_temperature sid m = (t, m1)"
    by (cases "generate_random_temperature sid m")
  define r where "r = rand m1"
  have m1: "m1 = m\<lparr>rand := r\<rparr>"
    using generate_frame [of sid m] g by (simp add: r_def)
  from assms(4) g have t: "alert_threshold_high m < t \<or> t < alert_threshold_low m"
    by simp
  then show ?thesis
    using assms(1,2,3)
    by (auto simp: process_sensor_def g m1 store_reading_def next_fault_def
        check_alerts_def store_alert_def)
qed

text \<open>
  C3, as the code has it. No exception is caught in the monitoring loop. When the earlier
  sensors of a pass have gone through, an exception raised while the next sensor is
  processed ends the pass there and ends the loop with that exception, whatever number of
  passes the loop had left. A write of the sensor's reading that fails is such an
  exception, a storage error, and it leaves the tables, the registry and the clock as they
  were; so is a write of the sensor's alert that fails, which leaves the alerts table, the
  registry and the clock as they were. No remaining sensor is processed and no later pass
  is made.
\<close>

theorem storage_failure_aborts_loop:
  assumes "is_running m0"
    and "m = logger_info ''Starting temperature monitoring system - generating random data every 3 seconds'' m0"
    and "map fst (sensors m) = pre @ sid # rest"
    and "for_sensors pre m = Done m1"
    and "map_of (sensors m1) sid = Some s"
  shows "(\<forall>e m2. process_sensor sid m1 = Raised e m2 \<longrightarrow>
       tick m = Raised e m2 \<and> monitoring_loop (Suc n) m0 = Some (Raised e m2)) \<and>
    (\<forall>f. faults m1 0 = Some f \<longrightarrow>
       (\<exists>m2. process_sensor sid m1 = Raised StorageError m2 \<and>
          temperature_readings m2 = temperature_readings m1 \<and>
          alerts m2 = alerts m1 \<and> sensors m2 = sensors m1 \<and> clock m2 = clock m1)) \<and>
    (\<forall>f. faults m1 0 = None \<and> faults m1 (Suc 0) = Some f \<and>
         (alert_threshold_high m1 < fst (generate_random_temperature sid m1) \<or>
          fst (generate_random_temperature sid m1) < alert_threshold_low m1) \<longrightarrow>
       (\<exists>m2. process_sensor sid m1 = Raised StorageError m2 \<and>
          alerts m2 = alerts m1 \<and> sensors m2 = sensors m1 \<and> clock m2 = clock m1))"
proof (intro conjI allI impI)
  fix e m2
  assume p: "process_sensor sid m1 = Raised e m2"
  have r: "is_running m"
    using assms(1,2) by (simp add: logger_info_def)
  show t: "tick m = Raised e m2"
    using assms(3,4) p by (rule tick_abort)
  have "while_running (Suc n) m = Some (Raised e m2)"
    using r t by (rule while_running_abort)
  then show "monitoring_loop (Suc n) m0 = Some (Raised e m2)"
    by (simp only: monitoring_loop_def assms(2))
next
  fix f
  assume f: "faults m1 0 = Some f"
  let ?after = "(snd (generate_random_temperature sid m1))\<lparr>faults := (\<lambda>n. faults m1 (Suc n))\<rparr>"
  have "process_sensor sid m1 = Raised StorageError ?after"
    using f assms(5) by (rule process_sensor_write_fails)
  moreover have "temperature_readings ?after = temperature_readings m1 \<and>
      alerts ?after = alerts m1 \<and> sensors ?after = sensors m1 \<and> clock ?after = clock m1"
    by (subst (1 2 3 4) generate_frame) simp
  ultimately show "\<exists>m2. process_sensor sid m1 = Raised StorageError m2 \<and>
      temperature_readings m2 = temperature_readings m1 \<and>
      alerts m2 = alerts m1 \<and> sensors m2 = sensors m1 \<and> clock m2 = clock m1"
    by blast
next
  fix f
  assume "faults m1 0 = None \<and> faults m1 (Suc 0) = Some f \<and>
      (alert_threshold_high m1 < fst (generate_random_temperature sid m1) \<or>
       fst (generate_random_temperature sid m1) < alert_threshold_low m1)"
  then show "\<exists>m2. process_sensor sid m1 = Raised StorageError m2 \<and>
      alerts m2 = alerts m1 \<and> sensors m2 = sensors m1 \<and> clock m2 = clock m1"
    using process_sensor_alert_write_fails [OF _ _ assms(5)] by blast
qed

text \<open>The theorem at two runs: in the first the write of the first sensor's reading
  fails, in the second the write of the first sensor's alert.\<close>

theorem storage_failure_aborts_loop_witness:
  "is_running (start_monitoring (init faulty_world)) \<and>
   map fst (sensors (start_monitoring (init faulty_world))) =
     [] @ ''sensor_001'' # [''sensor_002'', ''sensor_003'', ''sensor_004'', ''sensor_005''] \<and>
   faults (start_monitoring (init faulty_world)) 0 = Some Fails_at_write \<and>
   (\<exists>m2. monitoring_loop (Suc 2) (start_monitoring (init faulty_world)) =
       Some (Raised StorageError m2) \<and>
     temperature_readings m2 = [] \<and> alerts m2 = [] \<and> clock m2 = 0) \<and>
   is_running (start_monitoring (init alert_fault_world)) \<and>
   faults (start_monitoring (init alert_fault_world)) 0 = None \<and>
   faults (start_monitoring (init alert_fault_world)) (Suc 0) = Some Fails_at_write \<and>
   fst (generate_random_temperature ''sensor_001''
     (start_monitoring (init alert_fault_world))) = 26 \<and>
   (\<exists>m2. monitoring_loop (Suc 2) (start_monitoring (init alert_fault_world)) =
       Some (Raised StorageError m2) \<and>
     alerts m2 = [] \<and> map (last_reading \<circ> snd) (sensors m2) = [None, None, None, None, None] \<and>
     clock m2 = 0)"
proof -
  let ?start = "start_monitoring (init faulty_world)"
  let ?entry = "logger_info ''Starting temperature monitoring system - generating random data every 3 seconds'' ?start"
  have r: "is_running ?start"
    by (simp add: start_monitoring_def logger_info_def)
  have k: "map fst (sensors ?entry) =
      [] @ ''sensor_001'' # [''sensor_002'', ''sensor_003'', ''sensor_004'', ''sensor_005'']"
    by (simp add: start_monitoring_def logger_info_def init_sensors)
  have k0: "map fst (sensors ?start) =
      [] @ ''sensor_001'' # [''sensor_002'', ''sensor_003'', ''sensor_004'', ''sensor_005'']"
    by (simp add: start_monitoring_def logger_info_def init_sensors)
  have p: "for_sensors [] ?entry = Done ?entry"
    by simp
  obtain s where s: "map_of (sensors ?entry) ''sensor_001'' = Some s"
    by (simp add: start_monitoring_def logger_info_def init_sensors)
  have f: "faults ?entry 0 = Some Fails_at_write"
    by (simp add: start_monitoring_def logger_info_def init_frame faulty_world_def)
  have f0: "faults ?start 0 = Some Fails_at_write"
    by (simp add: start_monitoring_def logger_info_def init_frame faulty_world_def)
  have e: "temperature_readings ?entry = [] \<and> alerts ?entry = [] \<and> clock ?entry = 0"
    by (simp add: start_monitoring_def logger_info_def init_frame faulty_world_def
        example_world_def)
  note first = storage_failure_aborts_loop [OF r refl k p s, of 2]
  from first f obtain m2 where "process_sensor ''sensor_001'' ?entry = Raised StorageError m2"
    and "temperature_readings m2 = temperature_readings ?entry"
    and "alerts m2 = alerts ?entry" and "clock m2 = clock ?entry"
    by blast
  with first e have one: "\<exists>m2. monitoring_loop (Suc 2) ?start = Some (Raised StorageError m2) \<and>
     temperature_readings m2 = [] \<and> alerts m2 = [] \<and> clock m2 = 0"
    by auto
  let ?start' = "start_monitoring (init alert_fault_world)"
  let ?entry' = "logger_info ''Starting temperature monitoring system - generating random data every 3 seconds'' ?start'"
  have r': "is_running ?start'"
    by (simp add: start_monitoring_def logger_info_def)
  have k': "map fst (sensors ?entry') =
      [] @ ''sensor_001'' # [''sensor_002'', ''sensor_003'', ''sensor_004'', ''sensor_005'']"
    by (simp add: start_monitoring_def logger_info_def init_sensors)
  have p': "for_sensors [] ?entry' = Done ?entry'"
    by simp
  obtain s' where s': "map_of (sensors ?entry') ''sensor_001'' = Some s'"
    by (simp add: start_monitoring_def logger_info_def init_sensors)
  have f': "faults ?entry' 0 = None \<and> faults ?entry' (Suc 0) = Some Fails_at_write"
    by (simp add: start_monitoring_def logger_info_def init_frame alert_fault_world_def)
  have f0': "faults ?start' 0 = None \<and> faults ?start' (Suc 0) = Some Fails_at_write"
    by (simp add: start_monitoring_def logger_info_def init_frame alert_fault_world_def)
  have g': "fst (generate_random_temperature ''sensor_001'' ?entry') = 26"
    by (simp add: generate_eq start_monitoring_def logger_info_def init_frame
        alert_fault_world_def uniform_def py_round1_def)
  have g0': "fst (generate_random_temperature ''sensor_001'' ?start') = 26"
    by (simp add: generate_eq start_monitoring_def logger_info_def init_frame
        alert_fault_world_def uniform_def py_round1_def)
  have h': "alert_threshold_high ?entry' = 25"
    by (simp add: start_monitoring_def logger_info_def init_frame)
  have e': "alerts ?entry' = [] \<and> clock ?entry' = 0 \<and>
      map (last_reading \<circ> snd) (sensors ?entry') = [None, None, None, None, None]"
    by (simp add: start_monitoring_def logger_info_def init_frame init_sensors
        alert_fault_world_def example_world_def)
  note second = storage_failure_aborts_loop [OF r' refl k' p' s', of 2]
  from second f' g' h' obtain m2 where
    "process_sensor ''sensor_001'' ?entry' = Raised StorageError m2"
    and "alerts m2 = alerts ?entry'" and "sensors m2 = sensors ?entry'"
    and "clock m2 = clock ?entry'"
    by force
  with second e' have two: "\<exists>m2. monitoring_loop (Suc 2) ?start' = Some (Raised StorageError m2) \<and>
     alerts m2 = [] \<and> map (last_reading \<circ> snd) (sensors m2) = [None, None, None, None, None] \<and>
     clock m2 = 0"
    by auto
  from r k0 f0 one r' f0' g0' two show ?thesis by blast
qed

text \<open>
  C3 as stated fails. In the faulty environment only the write of the first sensor's
  reading fails and every later write would succeed. The loop, with three passes allowed,
  ends with the storage error: no reading is stored and no sensor gets a last reading, so
  the four remaining sensors of the pass are not processed and no later pass is made.
\<close>

theorem storage_failure_counterexample:
  "map_option error_of (monitoring_loop 3 (start_monitoring (init faulty_world))) =
     Some (Some StorageError) \<and>
   map_option (temperature_readings \<circ> state_of)
     (monitoring_loop 3 (start_monitoring (init faulty_world))) = Some [] \<and>
   map_option (map (last_reading \<circ> snd) \<circ> sensors \<circ> state_of)
     (monitoring_loop 3 (start_monitoring (init faulty_world))) =
     Some [None, None, None, None, None]"
  by (simp add: monitoring_loop_def init_defs faulty_world_def example_world_def
      run_defs eval_nat_numeral)

section \<open>Starting and stopping\<close>

text \<open>
  C4, as the code has it. \<^verbatim>\<open>start_monitoring\<close> does not look at the flag: every call sets
  it, starts one more monitoring thread and logs that, and changes nothing else.
\<close>

theorem start_spawns_worker:
  "is_running (start_monitoring m) \<and> threads (start_monitoring m) = threads m + 1 \<and>
   start_monitoring m =
     m\<lparr>is_running := True, threads := threads m + 1,
       logged := logged m @ [Info ''Monitoring thread started'']\<rparr>"
  by (simp add: start_monitoring_def logger_info_def)

text \<open>
  C4 as stated fails. After the constructor and one start the monitor is running with one
  monitoring thread; a second start leaves two of them live.
\<close>

theorem second_start_counterexample:
  "is_running (start_monitoring (init example_world)) \<and>
   threads (start_monitoring (init example_world)) = 1 \<and>
   threads (start_monitoring (start_monitoring (init example_world))) = 2"
  by (simp add: start_monitoring_def logger_info_def init_frame example_world_def)

text \<open>
  C8. Stopping twice leaves the flag clear. The second call only adds its log line: the
  tables, the registry, the clock and the threads are as before the first call. From that
  state the loop returns at once without a pass, whatever number of passes it is allowed,
  and a monitoring thread that arrives at the head of its loop ends without a pass.
\<close>

theorem stop_idempotent:
  "is_running (stop_monitoring (stop_monitoring m)) = False \<and>
   stop_monitoring (stop_monitoring m) =
     (stop_monitoring m)\<lparr>logged := logged (stop_monitoring m) @
        [Info ''Monitoring system stopped'']\<rparr> \<and>
   temperature_readings (stop_monitoring (stop_monitoring m)) = temperature_readings m \<and>
   alerts (stop_monitoring (stop_monitoring m)) = alerts m \<and>
   sensors (stop_monitoring (stop_monitoring m)) = sensors m \<and>
   clock (stop_monitoring (stop_monitoring m)) = clock m \<and>
   threads (stop_monitoring (stop_monitoring m)) = threads m \<and>
   while_running n (stop_monitoring (stop_monitoring m)) =
     Some (Done (stop_monitoring (stop_monitoring m))) \<and>
   worker_step (stop_monitoring (stop_monitoring m)) =
     (stop_monitoring (stop_monitoring m))\<lparr>threads := threads m - 1\<rparr>"
  by (cases n) (simp_all add: stop_monitoring_def logger_info_def worker_step_def)

section \<open>The active alerts\<close>

lemma select_active_mset:
  "mset (select_active tbl) = filter_mset (\<lambda>r. a_resolved r = False) (mset tbl)"
  by (simp add: select_active_def)

lemma select_active_sorted:
  "sorted_wrt (\<lambda>r r'. a_timestamp r' \<le> a_timestamp r) (select_active tbl)"
proof -
  have "sorted (map (\<lambda>r. - int (a_timestamp r)) (select_active tbl))"
    unfolding select_active_def by (rule sorted_sort_key)
  then show ?thesis by (simp add: sorted_map)
qed

text \<open>
  C6. When the query returns, its result is the selected rows, each reduced to its four
  columns. The selected rows are exactly the rows of the table that are not resolved, each
  as often as the table has it; they are in descending order of timestamp, and so is the
  result; and none of them is resolved.
\<close>

theorem active_alerts_query:
  assumes "get_active_alerts fault tbl = Inr res"
  shows "res = map alert_json (select_active tbl) \<and>
    mset (select_active tbl) = filter_mset (\<lambda>r. a_resolved r = False) (mset tbl) \<and>
    sorted_wrt (\<lambda>r r'. a_timestamp r' \<le> a_timestamp r) (select_active tbl) \<and>
    sorted_wrt (\<lambda>j j'. j_timestamp j' \<le> j_timestamp j) res \<and>
    (\<forall>r \<in> set (select_active tbl). r \<in> set tbl \<and> a_resolved r = False)"
proof -
  have r: "res = map alert_json (select_active tbl)"
    using assms by (simp add: get_active_alerts_def split: option.splits)
  have s: "sorted_wrt (\<lambda>j j'. j_timestamp j' \<le> j_timestamp j) res"
    using select_active_sorted [of tbl] by (simp add: r sorted_wrt_map alert_json_def)
  have "\<forall>r \<in> set (select_active tbl). r \<in> set tbl \<and> a_resolved r = False"
    by (simp add: select_active_def)
  with r s select_active_mset select_active_sorted show ?thesis by blast
qed

lemma example_query:
  "get_active_alerts None example_alerts =
     Inr [\<lparr>j_sensor_id = ''sensor_003'', j_alert_type = ''HIGH_TEMPERATURE'',
            j_temperature = 27, j_timestamp = 9\<rparr>,
          \<lparr>j_sensor_id = ''sensor_001'', j_alert_type = ''LOW_TEMPERATURE'',
            j_temperature = 1 / 2, j_timestamp = 3\<rparr>]"
  by (simp add: get_active_alerts_def select_active_def example_alerts_def alert_json_def)

theorem active_alerts_query_witness:
  "get_active_alerts None example_alerts =
     Inr [\<lparr>j_sensor_id = ''sensor_003'', j_alert_type = ''HIGH_TEMPERATURE'',
            j_temperature = 27, j_timestamp = 9\<rparr>,
          \<lparr>j_sensor_id = ''sensor_001'', j_alert_type = ''LOW_TEMPERATURE'',
            j_temperature = 1 / 2, j_timestamp = 3\<rparr>] \<and>
   map a_sensor_id (select_active example_alerts) = [''sensor_003'', ''sensor_001''] \<and>
   mset (select_active example_alerts) =
     filter_mset (\<lambda>r. a_resolved r = False) (mset example_alerts)"
  using active_alerts_query [OF example_query]
  by (simp add: example_query)
     (simp add: select_active_def example_alerts_def)

end
